theory Spec2Isabelle
  imports Main "HOL-Library.Word" "HOL-Library.Sublist"
begin

unbundle bit_operations_syntax

section \<open>Asset packer \<open>tools/cdata.js\<close>: data model\<close>

text \<open>
  A Node \<open>Buffer\<close> is a list of bytes. A JavaScript string is a list of characters and
  its \<open>length\<close> their number; the files are decoded with the \<open>ascii\<close> encoding and
  the templates of the script are ASCII, so \<open>string\<close> (one byte per character) is used.
  Texts from \<open>package.json\<close> or from a library with characters beyond that range are
  not covered.
\<close>

type_synonym byte = "8 word"
type_synonym buffer = "byte list"

text \<open>A thrown \<open>Error\<close> object; the packer only ever looks at its \<open>message\<close>.\<close>

datatype exn = Error (message: string)

text \<open>
  What a run does to the outside world, in order: \<open>console.info\<close> with its text,
  \<open>console.warn\<close> with its arguments, \<open>fs.writeFileSync\<close> with path and content.
\<close>

datatype event = Info string | Warn "string list" | WriteFile string string

text \<open>
  Everything the script takes from outside its own text: the two fields of
  \<open>package.json\<close> it reads (\<open>None\<close> when the field is absent), the file system as
  \<open>fs.readFileSync\<close> sees it, and the library functions it calls
  (\<open>clean-css\<close>, \<open>html-minifier\<close>, \<open>inliner\<close>, \<open>zlib.gzip\<close>). Each library
  call either throws or reports an error (\<open>Inl\<close>), or gives its result. The inliner hands
  its callback an error and a document, either of which may be missing.
\<close>

record env =
  version :: "string option"
  repository_url :: "string option"
  readFileSync :: "string \<Rightarrow> exn + buffer"
  cleanCSS :: "string \<Rightarrow> exn + string"
  minifyHTML :: "string \<Rightarrow> exn + string"
  inliner :: "string \<Rightarrow> exn option \<times> string option"
  gzip :: "string \<Rightarrow> exn + buffer"

text \<open>
  One asset spec, as the object literals at the bottom of the script have it: \<open>file\<close>,
  \<open>name\<close> and \<open>method\<close> are always there, the other fields may be absent.
\<close>

record spec =
  s_file :: string
  s_name :: string
  s_prepend :: "string option"
  s_append :: "string option"
  s_method :: string
  s_filter :: "string option"
  s_mangle :: "(string \<Rightarrow> string) option"

section \<open>Built-in string operations\<close>

text \<open>\<open>Number.prototype.toString(radix)\<close> on a natural number, radix 2 to 16.\<close>

definition digit_char :: "nat \<Rightarrow> char" where
  "digit_char d = ''0123456789abcdef'' ! d"

function toString_radix :: "nat \<Rightarrow> nat \<Rightarrow> string" where
  "toString_radix r n =
     (if r < 2 \<or> n < r then [digit_char n]
      else toString_radix r (n div r) @ [digit_char (n mod r)])"
  by pat_completeness auto
termination
  by (relation "measure (\<lambda>(r, n). n)") auto

declare toString_radix.simps [simp del]

text \<open>A number inside a template literal or a string concatenation: decimal.\<close>

definition num_str :: "nat \<Rightarrow> string" where
  "num_str n = toString_radix 10 n"

text \<open>\<open>String.prototype.padStart(n, c)\<close> with a one-character pad string.\<close>

definition padStart :: "nat \<Rightarrow> char \<Rightarrow> string \<Rightarrow> string" where
  "padStart n c s = replicate (n - length s) c @ s"

text \<open>\<open>Array.prototype.join(sep)\<close>.\<close>

fun join :: "string \<Rightarrow> string list \<Rightarrow> string" where
  "join sep [] = []"
| "join sep [x] = x"
| "join sep (x # y # ys) = x @ sep @ join sep (y # ys)"

text \<open>
  \<open>String.prototype.split(sep)\<close> with a string separator: the string is scanned from
  the left, every match of the separator closes the current piece and the scan goes on
  behind the match. With the empty separator the string is cut into its characters.
\<close>

function split_from :: "string \<Rightarrow> string \<Rightarrow> string \<Rightarrow> string list" where
  "split_from sep acc [] = [rev acc]"
| "split_from sep acc (c # cs) =
     (if sep \<noteq> [] \<and> prefix sep (c # cs)
      then rev acc # split_from sep [] (drop (length sep) (c # cs))
      else split_from sep (c # acc) cs)"
  by pat_completeness auto
termination
  by (relation "measure (\<lambda>(sep, acc, s). length s)") auto

definition split :: "string \<Rightarrow> string \<Rightarrow> string list" where
  "split sep s = (if sep = [] then map (\<lambda>c. [c]) s else split_from sep [] s)"

text \<open>\<open>Buffer.prototype.toString("ascii")\<close>: one character per byte, its top bit cleared.\<close>

definition toString_ascii :: "buffer \<Rightarrow> string" where
  "toString_ascii buf = map (\<lambda>b. char_of (unat (b AND 0x7F))) buf"

text \<open>The double quote character, for the templates below.\<close>

definition dquote :: string where
  "dquote = [CHR 0x22]"

section \<open>The functions of the script\<close>

subsection \<open>\<open>hexdump\<close>\<close>

definition hexByte :: "byte \<Rightarrow> string" where
  "hexByte v = ''0x'' @ padStart 2 (CHR ''0'') (toString_radix 16 (unat v))"

definition hexLine :: "buffer \<Rightarrow> string" where
  "hexLine block = ''  '' @ join '', '' (map hexByte block)"

function hexdump_lines :: "buffer \<Rightarrow> nat \<Rightarrow> string list" where
  "hexdump_lines buffer i =
     (if i < length buffer
      then hexLine (take 16 (drop i buffer)) # hexdump_lines buffer (i + 16)
      else [])"
  by pat_completeness auto
termination
  by (relation "measure (\<lambda>(buffer, i). length buffer - i)") auto

declare hexdump_lines.simps [simp del]

definition hexdump :: "buffer \<Rightarrow> string" where
  "hexdump buffer = join '',\<newline>'' (hexdump_lines buffer 0)"

subsection \<open>\<open>strReplace\<close> and \<open>adoptVersionAndRepo\<close>\<close>

definition strReplace :: "string \<Rightarrow> string \<Rightarrow> string \<Rightarrow> string" where
  "strReplace str search replacement = join replacement (split search str)"

text \<open>
  \<open>repoUrl.replace(/^git\+/, "")\<close> and \<open>repoUrl.replace(/\.git$/, "")\<close>: a leading
  \<open>git+\<close> and a trailing \<open>.git\<close> are cut off.
\<close>

definition strip_git_plus :: "string \<Rightarrow> string" where
  "strip_git_plus u = (if prefix ''git+'' u then drop 4 u else u)"

definition strip_dot_git :: "string \<Rightarrow> string" where
  "strip_dot_git u = (if suffix ''.git'' u then take (length u - 4) u else u)"

text \<open>
  \<open>if (repoUrl)\<close> and \<open>if (version)\<close> are false for an absent value and for the empty
  string; the URL is tested before \<open>git+\<close> and \<open>.git\<close> are cut off.
\<close>

definition adoptVersionAndRepo :: "env \<Rightarrow> string \<Rightarrow> string" where
  "adoptVersionAndRepo e html =
     (let html1 =
        (case repository_url e of
           None \<Rightarrow> html
         | Some url \<Rightarrow>
             if url = [] then html
             else (let repoUrl = strip_dot_git (strip_git_plus url)
                   in strReplace (strReplace html ''https://github.com/atuline/WLED'' repoUrl)
                        ''https://github.com/Aircoookie/WLED'' repoUrl))
      in case version e of
           None \<Rightarrow> html1
         | Some v \<Rightarrow> if v = [] then html1 else strReplace html1 ''##VERSION##'' v)"

subsection \<open>\<open>writeHtmlGzipped\<close>\<close>

text \<open>
  The callback given to the inliner reads \<open>html.length\<close> before it looks at \<open>error\<close>:
  without a document that read throws a \<open>TypeError\<close>. The result is the list of
  events and either the error the callback throws (\<open>Inl\<close>) or its normal end.
\<close>

definition typeError_length :: exn where
  "typeError_length = Error ''Cannot read properties of undefined (reading 'length')''"

definition htmlSrc :: "string \<Rightarrow> nat \<Rightarrow> string \<Rightarrow> string" where
  "htmlSrc sourceFile len array =
     ''/*\<newline> * Binary array for the Web UI.\<newline>'' @
     '' * gzip is used for smaller size and improved speeds.\<newline>'' @
     '' * \<newline>'' @
     '' * Please see https://github.com/Aircoookie/WLED/wiki/Add-own-functionality#web-ui\<newline>'' @
     '' * to find out how to easily modify the web UI source!\<newline>'' @
     '' */\<newline> \<newline>'' @
     ''// Autogenerated from '' @ sourceFile @ '', do not edit!!\<newline>'' @
     ''const uint16_t PAGE_index_L = '' @ num_str len @ '';\<newline>'' @
     ''const uint8_t PAGE_index[] PROGMEM = {\<newline>'' @
     array @ ''\<newline>};\<newline>''"

definition writeHtmlGzipped :: "env \<Rightarrow> string \<Rightarrow> string \<Rightarrow> event list \<times> (exn + unit)" where
  "writeHtmlGzipped e sourceFile resultFile =
     (let ev0 = [Info (''Reading '' @ sourceFile)] in
      case inliner e sourceFile of
        (error, None) \<Rightarrow> (ev0, Inl typeError_length)
      | (error, Some html) \<Rightarrow>
          (let ev1 = ev0 @ [Info (''Inlined '' @ num_str (length html) @ '' characters'')] in
           case error of
             Some err \<Rightarrow> (ev1 @ [Warn [message err]], Inl err)
           | None \<Rightarrow>
               (case gzip e (adoptVersionAndRepo e html) of
                  Inl err \<Rightarrow> (ev1 @ [Warn [message err]], Inl err)
                | Inr result \<Rightarrow>
                    (let array = hexdump result;
                         src = htmlSrc sourceFile (length result) array
                     in (ev1 @ [Info (''Compressed '' @ num_str (length result) @ '' bytes''),
                                Info (''Writing '' @ resultFile),
                                WriteFile resultFile src], Inr ())))))"

subsection \<open>\<open>filter\<close>\<close>

definition filter_str :: "env \<Rightarrow> string \<Rightarrow> string option \<Rightarrow> event list \<times> (exn + string)" where
  "filter_str e str0 type =
     (let str = adoptVersionAndRepo e str0 in
      case type of
        None \<Rightarrow> ([], Inr str)
      | Some t \<Rightarrow>
          if t = ''css-minify'' then ([], cleanCSS e str)
          else if t = ''html-minify'' then ([], minifyHTML e str)
          else ([Warn [''Unknown filter: '' @ t]], Inr str))"

subsection \<open>\<open>specToChunk\<close>\<close>

text \<open>\<open>x || ""\<close> for an optional string field.\<close>

definition or_empty :: "string option \<Rightarrow> string" where
  "or_empty v = (case v of None \<Rightarrow> [] | Some s \<Rightarrow> s)"

text \<open>\<open>s.mangle ? s.mangle(chunk) : chunk\<close>.\<close>

definition mangled :: "spec \<Rightarrow> string \<Rightarrow> string" where
  "mangled s chunk = (case s_mangle s of None \<Rightarrow> chunk | Some m \<Rightarrow> m chunk)"

definition plaintextChunk :: "string \<Rightarrow> spec \<Rightarrow> string \<Rightarrow> string" where
  "plaintextChunk srcDir s content =
     ''\<newline>// Autogenerated from '' @ srcDir @ ''/'' @ s_file s @ '', do not edit!!\<newline>'' @
     ''const char '' @ s_name s @ ''[] PROGMEM = R'' @ dquote @
     or_empty (s_prepend s) @ content @ or_empty (s_append s) @
     dquote @ '';\<newline>\<newline>''"

definition binaryChunk :: "string \<Rightarrow> spec \<Rightarrow> string \<Rightarrow> string" where
  "binaryChunk srcDir s result =
     ''\<newline>// Autogenerated from '' @ srcDir @ ''/'' @ s_file s @ '', do not edit!!\<newline>'' @
     ''const uint16_t '' @ s_name s @ ''_length = '' @ num_str (length result) @ '';\<newline>'' @
     ''const uint8_t '' @ s_name s @ ''[] PROGMEM = {\<newline>'' @
     result @ ''\<newline>};\<newline>\<newline>''"

text \<open>
  The result is \<open>Inl\<close> for a thrown error, \<open>Inr None\<close> for \<open>undefined\<close> and
  \<open>Inr (Some chunk)\<close> for a rendered chunk.
\<close>

definition specToChunk :: "env \<Rightarrow> string \<Rightarrow> spec \<Rightarrow> event list \<times> (exn + string option)" where
  "specToChunk e srcDir s =
     (if s_method s = ''plaintext'' then
        (case readFileSync e (srcDir @ ''/'' @ s_file s) of
           Inl err \<Rightarrow> ([], Inl err)
         | Inr buf \<Rightarrow>
             (let str = toString_ascii buf in
              case filter_str e str (s_filter s) of
                (evs, Inl err) \<Rightarrow> (evs, Inl err)
              | (evs, Inr content) \<Rightarrow>
                  (evs, Inr (Some (mangled s (plaintextChunk srcDir s content))))))
      else if s_method s = ''binary'' then
        (case readFileSync e (srcDir @ ''/'' @ s_file s) of
           Inl err \<Rightarrow> ([], Inl err)
         | Inr buf \<Rightarrow>
             (let result = hexdump buf
              in ([], Inr (Some (mangled s (binaryChunk srcDir s result))))))
      else ([Warn [''Unknown method: '' @ s_method s]], Inr None))"

subsection \<open>\<open>writeChunks\<close>\<close>

definition chunksHeader :: string where
  "chunksHeader =
     ''/*\<newline> * More web UI HTML source arrays.\<newline>'' @
     '' * This file is auto generated, please don't make any changes manually.\<newline>'' @
     '' * Instead, see https://github.com/Aircoookie/WLED/wiki/Add-own-functionality#web-ui\<newline>'' @
     '' * to find out how to easily modify the web UI source!\<newline>'' @
     '' */ \<newline>''"

text \<open>\<open>src += v\<close>: the value is turned into a string, \<open>undefined\<close> into its name.\<close>

definition to_str :: "string option \<Rightarrow> string" where
  "to_str v = (case v of None \<Rightarrow> ''undefined'' | Some c \<Rightarrow> c)"

text \<open>The diagnostic passed to \<open>console.warn\<close> in the \<open>catch\<close> block.\<close>

definition short_message :: "exn \<Rightarrow> string" where
  "short_message err = (if length (message err) > 60 then take 60 (message err) else message err)"

text \<open>
  The body of the \<open>forEach\<close> callback: the state is the buffer \<open>src\<close> and the events
  so far.
\<close>

definition writeChunks_each :: "env \<Rightarrow> string \<Rightarrow> string \<times> event list \<Rightarrow> spec \<Rightarrow> string \<times> event list" where
  "writeChunks_each e srcDir st s =
     (let src = fst st;
          evs = snd st @ [Info (''Reading '' @ srcDir @ ''/'' @ s_file s @ '' as '' @ s_name s)]
      in case specToChunk e srcDir s of
           (evs1, Inr v) \<Rightarrow> (src @ to_str v, evs @ evs1)
         | (evs1, Inl err) \<Rightarrow>
             (src, evs @ evs1 @
                [Warn [''Failed '' @ s_name s @ '' from '' @ srcDir @ ''/'' @ s_file s,
                       short_message err]]))"

definition writeChunks :: "env \<Rightarrow> string \<Rightarrow> spec list \<Rightarrow> string \<Rightarrow> event list" where
  "writeChunks e srcDir specs resultFile =
     (let st = foldl (writeChunks_each e srcDir) (chunksHeader, []) specs;
          src = fst st
      in snd st @
         [Info (''Writing '' @ num_str (length src) @ '' characters into '' @ resultFile),
          WriteFile resultFile src])"

section \<open>Reading a run\<close>

text \<open>Whether an event is a call of \<open>fs.writeFileSync\<close>.\<close>

fun is_write :: "event \<Rightarrow> bool" where
  "is_write (WriteFile path content) = True"
| "is_write (Info text) = False"
| "is_write (Warn args) = False"

text \<open>
  What one spec adds to the buffer of \<open>writeChunks\<close>, and the events it causes there:
  nothing is added when \<open>specToChunk\<close> throws, the text of the returned value otherwise.
\<close>

definition appended :: "env \<Rightarrow> string \<Rightarrow> spec \<Rightarrow> string" where
  "appended e srcDir s =
     (case snd (specToChunk e srcDir s) of Inl err \<Rightarrow> [] | Inr v \<Rightarrow> to_str v)"

definition emitted :: "env \<Rightarrow> string \<Rightarrow> spec \<Rightarrow> event list" where
  "emitted e srcDir s =
     Info (''Reading '' @ srcDir @ ''/'' @ s_file s @ '' as '' @ s_name s) #
     fst (specToChunk e srcDir s) @
     (case snd (specToChunk e srcDir s) of
        Inl err \<Rightarrow>
          [Warn [''Failed '' @ s_name s @ '' from '' @ srcDir @ ''/'' @ s_file s,
                 short_message err]]
      | Inr v \<Rightarrow> [])"

text \<open>The bytes of a file read as text with one character per byte, nothing changed.\<close>

definition bytes_as_text :: "buffer \<Rightarrow> string" where
  "bytes_as_text buf = map (\<lambda>b. char_of (unat b)) buf"

section \<open>A small project to run the packer on\<close>

text \<open>
  Four files under \<open>wled00/data\<close>: a one-byte icon, a page that carries the version
  placeholder, a page with one byte beyond 7-bit ASCII and a style sheet that carries the
  placeholder. Every other path cannot be read. The minifiers are left as the identity, the inliner delivers a small document and
  the compressor two bytes.
\<close>

definition example_css :: buffer where
  "example_css = map of_char ''b{content:##VERSION##}''"

definition example_files :: "string \<Rightarrow> exn + buffer" where
  "example_files path =
     (if path = ''wled00/data/favicon.ico'' then Inr [0x00]
      else if path = ''wled00/data/msg.htm'' then Inr (map of_char ''WLED ##VERSION##'')
      else if path = ''wled00/data/latin.htm'' then Inr [0x80]
      else if path = ''wled00/data/style.css'' then Inr example_css
      else Inl (Error ''ENOENT: no such file or directory, open the requested asset of the web interface''))"

definition example_env :: env where
  "example_env =
     \<lparr>version = Some ''1.2.3'',
      repository_url = Some ''git+https://github.com/Ecstxsy/WLED.git'',
      readFileSync = example_files,
      cleanCSS = Inr,
      minifyHTML = Inr,
      inliner = (\<lambda>path. (None, Some ''<html>##VERSION##</html>'')),
      gzip = (\<lambda>doc. Inr [0x1f, 0x8b])\<rparr>"

definition example_spec :: "string \<Rightarrow> string \<Rightarrow> string \<Rightarrow> string option \<Rightarrow> spec" where
  "example_spec file name method flt =
     \<lparr>s_file = file, s_name = name, s_prepend = Some ''=====('', s_append = Some '')====='',
      s_method = method, s_filter = flt, s_mangle = None\<rparr>"

section \<open>Lengths of the hexadecimal rendering\<close>

lemma length_join: "length (join sep xs) = sum_list (map length xs) + (length xs - 1) * length sep"
  by (induction sep xs rule: join.induct) auto

lemma length_toString_radix_16: "n < 256 \<Longrightarrow> length (toString_radix 16 n) \<le> 2 \<and> 0 < length (toString_radix 16 n)"
proof -
  assume n: "n < 256"
  show ?thesis
  proof (cases "n < 16")
    case True
    then show ?thesis by (simp add: toString_radix.simps [of 16 n])
  next
    case False
    then have "n div 16 < 16" using n by simp
    then show ?thesis using False
      by (simp add: toString_radix.simps [of 16 n] toString_radix.simps [of 16 "n div 16"])
  qed
qed

lemma length_hexByte: "length (hexByte v) = 4"
proof -
  have "unat v < 256" using unsigned_less [of v] by simp
  from length_toString_radix_16 [OF this] show ?thesis
    by (auto simp: hexByte_def padStart_def)
qed

lemma length_hexLine: "length (hexLine block) = (if block = [] then 2 else 6 * length block)"
proof -
  have "sum_list (map length (map hexByte block)) = 4 * length block"
    by (induction block) (simp_all add: length_hexByte)
  then show ?thesis
    by (cases block) (simp_all add: hexLine_def length_join)
qed

lemma hexdump_lines_step:
  "i < length buffer \<Longrightarrow>
   hexdump_lines buffer i = hexLine (take 16 (drop i buffer)) # hexdump_lines buffer (i + 16)"
  by (subst hexdump_lines.simps) simp

lemma hexdump_lines_done: "\<not> i < length buffer \<Longrightarrow> hexdump_lines buffer i = []"
  by (subst hexdump_lines.simps) simp

lemma hexdump_lines_sum: "sum_list (map length (hexdump_lines buf i)) = 6 * (length buf - i)"
proof (induction buf i rule: hexdump_lines.induct)
  case (1 buffer i)
  show ?case
  proof (cases "i < length buffer")
    case True
    then have ne: "take 16 (drop i buffer) \<noteq> []" by simp
    then have len: "length (hexLine (take 16 (drop i buffer))) = 6 * min 16 (length buffer - i)"
      by (simp add: length_hexLine)
    have ih: "sum_list (map length (hexdump_lines buffer (i + 16))) = 6 * (length buffer - (i + 16))"
      using 1 True by simp
    have "sum_list (map length (hexdump_lines buffer i)) =
          length (hexLine (take 16 (drop i buffer))) +
          sum_list (map length (hexdump_lines buffer (i + 16)))"
      by (simp add: hexdump_lines_step [OF True])
    also have "\<dots> = 6 * min 16 (length buffer - i) + 6 * (length buffer - (i + 16))"
      by (simp only: len ih)
    also have "\<dots> = 6 * (length buffer - i)"
      by (cases "16 \<le> length buffer - i") (simp_all add: min_def)
    finally show ?thesis .
  next
    case False
    then show ?thesis by (simp add: hexdump_lines_done)
  qed
qed

lemma hexdump_count_arith: "i < (n::nat) \<Longrightarrow> Suc ((n - (i + 16) + 15) div 16) = (n - i + 15) div 16"
proof (cases "n - i < 16")
  case True
  assume "i < n"
  with True have "n - (i + 16) = 0" and "16 \<le> n - i + 15" and "n - i + 15 < 32" by linarith+
  then show ?thesis by (simp add: div_eq_dividend_iff)
next
  case False
  then have "n - i + 15 = (n - (i + 16) + 15) + 16" by linarith
  then have "(n - i + 15) div 16 = (n - (i + 16) + 15) div 16 + 1"
    by (simp only: div_add_self2)
  then show ?thesis by simp
qed

lemma hexdump_lines_count: "length (hexdump_lines buf i) = (length buf - i + 15) div 16"
proof (induction buf i rule: hexdump_lines.induct)
  case (1 buffer i)
  show ?case
  proof (cases "i < length buffer")
    case True
    have ih: "length (hexdump_lines buffer (i + 16)) = (length buffer - (i + 16) + 15) div 16"
      using 1 True by simp
    have "length (hexdump_lines buffer i) = Suc (length (hexdump_lines buffer (i + 16)))"
      by (simp add: hexdump_lines_step [OF True])
    also have "\<dots> = Suc ((length buffer - (i + 16) + 15) div 16)"
      by (simp only: ih)
    also have "\<dots> = (length buffer - i + 15) div 16"
      using True by (rule hexdump_count_arith)
    finally show ?thesis .
  next
    case False
    then show ?thesis by (simp add: hexdump_lines_done)
  qed
qed

lemma length_hexdump: "length (hexdump buf) = 6 * length buf + 2 * ((length buf + 15) div 16 - 1)"
  by (simp add: hexdump_def length_join hexdump_lines_sum hexdump_lines_count)

lemma length_hexdump_nonempty:
  "buf \<noteq> [] \<Longrightarrow> length (hexdump buf) = 6 * length buf + 2 * ((length buf - 1) div 16)"
proof -
  assume "buf \<noteq> []"
  then obtain k where k: "length buf = Suc k" by (cases buf) auto
  have "(Suc k + 15) div 16 = k div 16 + 1"
    using div_add_self2 [of 16 k] by simp
  then show ?thesis by (simp add: length_hexdump k)
qed

section \<open>Splitting and joining\<close>

lemma split_from_not_Nil: "split_from sep acc s \<noteq> []"
  by (induction sep acc s rule: split_from.induct) auto

lemma join_Cons: "xs \<noteq> [] \<Longrightarrow> join sep (x # xs) = x @ sep @ join sep xs"
  by (cases xs) simp_all

lemma join_split_from: "sep \<noteq> [] \<Longrightarrow> join sep (split_from sep acc s) = rev acc @ s"
proof (induction sep acc s rule: split_from.induct)
  case (1 sep acc)
  then show ?case by simp
next
  case (2 sep acc c cs)
  show ?case
  proof (cases "prefix sep (c # cs)")
    case True
    then have "sep @ drop (length sep) (c # cs) = c # cs"
      by (metis append_eq_conv_conj prefix_def)
    with 2 True show ?thesis
      by (simp add: join_Cons split_from_not_Nil)
  next
    case False
    with 2 show ?thesis by simp
  qed
qed

lemma join_split: "sep \<noteq> [] \<Longrightarrow> join sep (split sep s) = s"
  by (simp add: split_def join_split_from)

lemma sublist_prefix_drop:
  assumes "sublist sep p" and "sep \<noteq> []"
  shows "\<exists>k < length p. prefix sep (drop k p)"
proof -
  from assms(1) obtain ps ss where p: "p = ps @ sep @ ss" by (auto simp: sublist_def)
  then have "prefix sep (drop (length ps) p)" by simp
  moreover have "length ps < length p" using p assms(2) by (cases sep) simp_all
  ultimately show ?thesis by blast
qed

lemma split_from_pieces:
  "sep \<noteq> [] \<Longrightarrow> \<forall>k < length acc. \<not> prefix sep (drop k (rev acc @ s)) \<Longrightarrow>
   \<forall>p \<in> set (split_from sep acc s). \<not> sublist sep p"
proof (induction sep acc s rule: split_from.induct)
  case (1 sep acc)
  show ?case
  proof (simp, rule notI)
    assume "sublist sep (rev acc)"
    from sublist_prefix_drop [OF this 1(1)] obtain k where "k < length acc" "prefix sep (drop k (rev acc))"
      by auto
    with 1(2) show False by simp
  qed
next
  case (2 sep acc c cs)
  have no_acc: "\<not> sublist sep (rev acc)"
  proof
    assume "sublist sep (rev acc)"
    from sublist_prefix_drop [OF this 2(3)] obtain k where k: "k < length acc" "prefix sep (drop k (rev acc))"
      by auto
    then have "prefix sep (drop k (rev acc @ c # cs))"
      by (simp add: prefix_prefix)
    with 2(4) k(1) show False by blast
  qed
  show ?case
  proof (cases "prefix sep (c # cs)")
    case True
    have "\<forall>p\<in>set (split_from sep [] (drop (length sep) (c # cs))). \<not> sublist sep p"
      using 2(1) 2(3) True by simp
    with True 2(3) no_acc show ?thesis by simp
  next
    case False
    have "\<forall>k<length (c # acc). \<not> prefix sep (drop k (rev (c # acc) @ cs))"
    proof (intro allI impI)
      fix k assume "k < length (c # acc)"
      then consider "k < length acc" | "k = length acc" by fastforce
      then show "\<not> prefix sep (drop k (rev (c # acc) @ cs))"
      proof cases
        case 1
        with 2(4) show ?thesis by simp
      next
        case 2
        with False show ?thesis by simp
      qed
    qed
    with 2(2) 2(3) False show ?thesis by simp
  qed
qed

lemma split_pieces: "sep \<noteq> [] \<Longrightarrow> \<forall>p \<in> set (split sep s). \<not> sublist sep p"
  using split_from_pieces [of sep "[]" s] by (simp add: split_def)

lemma disjoint_subset_Nil: "set v \<inter> set t = {} \<Longrightarrow> set t \<subseteq> set v \<Longrightarrow> t = []"
proof -
  assume d: "set v \<inter> set t = {}" and s: "set t \<subseteq> set v"
  have "A \<inter> B = {} \<Longrightarrow> B \<subseteq> A \<Longrightarrow> B = {}" for A B :: "'a set"
    by (auto simp: disjoint_iff)
  from this [OF d s] show ?thesis by simp
qed

lemma sublist_behind:
  assumes "set v \<inter> set t = {}" and "\<not> sublist t b"
  shows "\<not> sublist t (v @ b)"
proof
  assume "sublist t (v @ b)"
  then consider "sublist t v" | "sublist t b"
    | t1 t2 where "t = t1 @ t2" "suffix t1 v" "prefix t2 b"
    by (auto simp: sublist_append)
  then show False
  proof cases
    case 1
    then have "set t \<subseteq> set v" by (rule set_mono_sublist)
    with assms(1) have "t = []" by (rule disjoint_subset_Nil)
    with assms(2) show False by simp
  next
    case 2
    with assms(2) show False by simp
  next
    case 3
    from 3(2) have "set t1 \<subseteq> set v" by (rule set_mono_suffix)
    moreover from assms(1) 3(1) have "set v \<inter> set t1 = {}" by auto
    ultimately have "t1 = []" using disjoint_subset_Nil by blast
    with 3(1) 3(3) have "sublist t b" by simp
    with assms(2) show False by simp
  qed
qed

lemma sublist_around:
  assumes "set v \<inter> set t = {}" and "v \<noteq> []"
    and "\<not> sublist t a" and "\<not> sublist t b"
  shows "\<not> sublist t (a @ v @ b)"
proof
  assume "sublist t (a @ v @ b)"
  then consider "sublist t a" | "sublist t (v @ b)"
    | t1 t2 where "t = t1 @ t2" "suffix t1 a" "prefix t2 (v @ b)"
    by (auto simp: sublist_append)
  then show False
  proof cases
    case 1
    with assms(3) show False by simp
  next
    case 2
    with sublist_behind [OF assms(1) assms(4)] show False by simp
  next
    case 3
    show False
    proof (cases t2)
      case Nil
      with 3(1) 3(2) have "sublist t a" by simp
      with assms(3) show False by simp
    next
      case (Cons x xs)
      from assms(2) obtain y ys where v: "v = y # ys" by (cases v) auto
      from 3(3) Cons v have "x = y" by simp
      then have "x \<in> set v" using v by simp
      moreover have "x \<in> set t" using 3(1) Cons by simp
      ultimately show False using assms(1) by auto
    qed
  qed
qed

lemma join_no_sublist:
  assumes "set v \<inter> set t = {}" and "v \<noteq> []"
  shows "\<forall>p \<in> set ps. \<not> sublist t p \<Longrightarrow> ps \<noteq> [] \<Longrightarrow> \<not> sublist t (join v ps)"
proof (induction ps)
  case Nil
  then show ?case by simp
next
  case (Cons p ps)
  show ?case
  proof (cases ps)
    case Nil
    with Cons.prems show ?thesis by simp
  next
    case (Cons q qs)
    with Cons.IH Cons.prems have "\<not> sublist t (join v ps)" by simp
    moreover from Cons.prems have "\<not> sublist t p" by simp
    ultimately have "\<not> sublist t (p @ v @ join v ps)"
      using sublist_around [OF assms] by blast
    with Cons show ?thesis by simp
  qed
qed

lemma strReplace_pieces:
  assumes "search \<noteq> []"
  shows "join search (split search str) = str"
    and "strReplace str search replacement = join replacement (split search str)"
    and "\<forall>p \<in> set (split search str). \<not> sublist search p"
    and "set replacement \<inter> set search = {} \<Longrightarrow> replacement \<noteq> [] \<Longrightarrow>
         \<not> sublist search (strReplace str search replacement)"
proof -
  show "join search (split search str) = str" using assms by (rule join_split)
  show "strReplace str search replacement = join replacement (split search str)"
    by (simp add: strReplace_def)
  show pieces: "\<forall>p \<in> set (split search str). \<not> sublist search p"
    using assms by (rule split_pieces)
  have "split search str \<noteq> []"
    using assms by (simp add: split_def split_from_not_Nil)
  then show "set replacement \<inter> set search = {} \<Longrightarrow> replacement \<noteq> [] \<Longrightarrow>
         \<not> sublist search (strReplace str search replacement)"
    using join_no_sublist [OF _ _ pieces] by (simp add: strReplace_def)
qed

lemma adoptVersionAndRepo_version_stage:
  "adoptVersionAndRepo e html =
     (case version e of
        None \<Rightarrow> adoptVersionAndRepo (e\<lparr>version := None\<rparr>) html
      | Some v \<Rightarrow>
          if v = [] then adoptVersionAndRepo (e\<lparr>version := None\<rparr>) html
          else strReplace (adoptVersionAndRepo (e\<lparr>version := None\<rparr>) html) ''##VERSION##'' v)"
  by (simp add: adoptVersionAndRepo_def Let_def split: option.splits)

lemma adoptVersionAndRepo_version:
  assumes "version e = Some v" and "v \<noteq> []"
  shows "adoptVersionAndRepo e str =
           join v (split ''##VERSION##'' (adoptVersionAndRepo (e\<lparr>version := None\<rparr>) str))"
  using assms
  by (simp add: adoptVersionAndRepo_version_stage [of e str] strReplace_def)

section \<open>Decoding a file as text\<close>

lemma and_7F_small: "(b::byte) < 0x80 \<Longrightarrow> b AND 0x7F = b"
proof -
  assume "b < 0x80"
  then have "b < 2 ^ 7" by simp
  then have "b AND mask 7 = b" by (rule less_mask_eq)
  then show ?thesis by (simp add: mask_eq_exp_minus_1)
qed

lemma toString_ascii_7bit: "\<forall>b\<in>set buf. b < 0x80 \<Longrightarrow> toString_ascii buf = bytes_as_text buf"
  by (simp add: toString_ascii_def bytes_as_text_def and_7F_small)

section \<open>The shape of a run of \<open>writeChunks\<close>\<close>

lemma filter_str_no_write: "filter is_write (fst (filter_str e str t)) = []"
  by (simp add: filter_str_def Let_def split: option.splits)

lemma specToChunk_no_write: "filter is_write (fst (specToChunk e d s)) = []"
proof -
  have "filter is_write (fst (filter_str e str t)) = []" for str t
    by (rule filter_str_no_write)
  then show ?thesis
    by (auto simp: specToChunk_def Let_def split: sum.splits prod.splits) (metis fst_conv)+
qed

lemma emitted_no_write: "filter is_write (emitted e d s) = []"
  by (simp add: emitted_def specToChunk_no_write split: sum.splits)

lemma emitted_all_no_write: "filter is_write (concat (map (emitted e d) specs)) = []"
  by (induction specs) (simp_all add: emitted_no_write)

lemma writeChunks_each_eq:
  "writeChunks_each e d (src, evs) s = (src @ appended e d s, evs @ emitted e d s)"
  by (cases "specToChunk e d s")
     (simp add: writeChunks_each_def appended_def emitted_def Let_def split: sum.splits)

lemma foldl_writeChunks_each:
  "foldl (writeChunks_each e d) (src, evs) specs =
     (src @ concat (map (appended e d) specs), evs @ concat (map (emitted e d) specs))"
  by (induction specs arbitrary: src evs) (simp_all add: writeChunks_each_eq)

lemma writeChunks_eq:
  "writeChunks e d specs f =
     concat (map (emitted e d) specs) @
     [Info (''Writing '' @ num_str (length (chunksHeader @ concat (map (appended e d) specs))) @
            '' characters into '' @ f),
      WriteFile f (chunksHeader @ concat (map (appended e d) specs))]"
  by (simp add: writeChunks_def foldl_writeChunks_each Let_def)

lemma writeChunks_writes:
  "filter is_write (writeChunks e d specs f) =
     [WriteFile f (chunksHeader @ concat (map (appended e d) specs))]"
  by (simp add: writeChunks_eq emitted_all_no_write)

lemma short_message_take: "short_message err = take 60 (message err)"
  by (simp add: short_message_def)

lemma appended_read_fails:
  assumes "s_method s = ''plaintext'' \<or> s_method s = ''binary''"
    and "readFileSync e (d @ ''/'' @ s_file s) = Inl err"
  shows "appended e d s = []"
    and "emitted e d s =
           [Info (''Reading '' @ d @ ''/'' @ s_file s @ '' as '' @ s_name s),
            Warn [''Failed '' @ s_name s @ '' from '' @ d @ ''/'' @ s_file s,
                  take 60 (message err)]]"
  using assms by (auto simp: appended_def emitted_def specToChunk_def short_message_take)

lemma appended_unknown_method:
  assumes "s_method s \<noteq> ''plaintext''" and "s_method s \<noteq> ''binary''"
  shows "appended e d s = ''undefined''"
    and "emitted e d s =
           [Info (''Reading '' @ d @ ''/'' @ s_file s @ '' as '' @ s_name s),
            Warn [''Unknown method: '' @ s_method s]]"
  using assms by (auto simp: appended_def emitted_def specToChunk_def to_str_def)

lemma chunksHeader_text:
  "chunksHeader =
     ''/*\<newline> * More web UI HTML source arrays.\<newline>'' @
     '' * This file is auto generated, please don't make any changes manually.\<newline>'' @
     '' * Instead, see https://github.com/Aircoookie/WLED/wiki/Add-own-functionality#web-ui\<newline>'' @
     '' * to find out how to easily modify the web UI source!\<newline>'' @
     '' */ \<newline>''"
  by (simp add: chunksHeader_def)

lemma appended_cases:
  "appended e d s =
     (case snd (specToChunk e d s) of
        Inl err \<Rightarrow> []
      | Inr None \<Rightarrow> ''undefined''
      | Inr (Some chunk) \<Rightarrow> chunk)"
  by (simp add: appended_def to_str_def split: sum.splits option.splits)

lemma filter_str_result:
  "snd (filter_str e str t) =
     (case t of
        None \<Rightarrow> Inr (adoptVersionAndRepo e str)
      | Some n \<Rightarrow>
          if n = ''css-minify'' then cleanCSS e (adoptVersionAndRepo e str)
          else if n = ''html-minify'' then minifyHTML e (adoptVersionAndRepo e str)
          else Inr (adoptVersionAndRepo e str))"
  by (simp add: filter_str_def Let_def split: option.splits)

lemma appended_by_method:
  "appended e srcDir s =
     (if s_method s = ''plaintext'' then
        (case readFileSync e (srcDir @ ''/'' @ s_file s) of
           Inl err \<Rightarrow> []
         | Inr buf \<Rightarrow>
             (case (case s_filter s of
                      None \<Rightarrow> Inr (adoptVersionAndRepo e (toString_ascii buf))
                    | Some t \<Rightarrow>
                        if t = ''css-minify''
                        then cleanCSS e (adoptVersionAndRepo e (toString_ascii buf))
                        else if t = ''html-minify''
                        then minifyHTML e (adoptVersionAndRepo e (toString_ascii buf))
                        else Inr (adoptVersionAndRepo e (toString_ascii buf))) of
                Inl err \<Rightarrow> []
              | Inr content \<Rightarrow>
                  (case s_mangle s of None \<Rightarrow> (\<lambda>chunk. chunk) | Some m \<Rightarrow> m)
                    (''\<newline>// Autogenerated from '' @ srcDir @ ''/'' @ s_file s @
                     '', do not edit!!\<newline>'' @
                     ''const char '' @ s_name s @ ''[] PROGMEM = R'' @ [CHR 0x22] @
                     (case s_prepend s of None \<Rightarrow> [] | Some p \<Rightarrow> p) @ content @
                     (case s_append s of None \<Rightarrow> [] | Some a \<Rightarrow> a) @
                     [CHR 0x22] @ '';\<newline>\<newline>'')))
      else if s_method s = ''binary'' then
        (case readFileSync e (srcDir @ ''/'' @ s_file s) of
           Inl err \<Rightarrow> []
         | Inr buf \<Rightarrow>
             (case s_mangle s of None \<Rightarrow> (\<lambda>chunk. chunk) | Some m \<Rightarrow> m)
               (''\<newline>// Autogenerated from '' @ srcDir @ ''/'' @ s_file s @
                '', do not edit!!\<newline>'' @
                ''const uint16_t '' @ s_name s @ ''_length = '' @
                num_str (length (hexdump buf)) @ '';\<newline>'' @
                ''const uint8_t '' @ s_name s @ ''[] PROGMEM = {\<newline>'' @
                hexdump buf @ ''\<newline>};\<newline>\<newline>''))
      else ''undefined'')"
proof -
  have f: "filter_str e str t = (fst (filter_str e str t), snd (filter_str e str t))" for str t
    by simp
  show ?thesis
    unfolding appended_cases specToChunk_def Let_def
    by (subst f)
       (simp add: filter_str_result mangled_def plaintextChunk_def binaryChunk_def or_empty_def
          dquote_def split: sum.splits option.splits)
qed

lemma specToChunk_plaintext_result:
  assumes "s_method s = ''plaintext''"
    and "readFileSync e (srcDir @ ''/'' @ s_file s) = Inr buf"
  shows "snd (specToChunk e srcDir s) =
           (case snd (filter_str e (toString_ascii buf) (s_filter s)) of
              Inl err \<Rightarrow> Inl err
            | Inr content \<Rightarrow> Inr (Some (mangled s (plaintextChunk srcDir s content))))"
  using assms
  by (cases "filter_str e (toString_ascii buf) (s_filter s)")
     (auto simp: specToChunk_def split: sum.splits)

section \<open>The page written by \<open>writeHtmlGzipped\<close>\<close>

text \<open>
  When inlining and compression succeed, the one file written carries the number of
  compressed bytes as \<open>PAGE_index_L\<close> and their hexadecimal rendering.
\<close>

lemma writeHtmlGzipped_success:
  assumes "inliner e sourceFile = (None, Some html)"
    and "gzip e (adoptVersionAndRepo e html) = Inr result"
  shows "writeHtmlGzipped e sourceFile resultFile =
           ([Info (''Reading '' @ sourceFile),
             Info (''Inlined '' @ num_str (length html) @ '' characters''),
             Info (''Compressed '' @ num_str (length result) @ '' bytes''),
             Info (''Writing '' @ resultFile),
             WriteFile resultFile (htmlSrc sourceFile (length result) (hexdump result))],
            Inr ())"
  using assms by (simp add: writeHtmlGzipped_def)

text \<open>
  When the callback is handed an error or no document, or the compression fails, it ends
  by throwing and nothing is written.
\<close>

lemma writeHtmlGzipped_throws_without_write:
  assumes "inliner e sourceFile = (error, doc)"
    and "error \<noteq> None \<or> doc = None \<or>
         (\<exists>html err. doc = Some html \<and> gzip e (adoptVersionAndRepo e html) = Inl err)"
  shows "isl (snd (writeHtmlGzipped e sourceFile resultFile))"
    and "filter is_write (fst (writeHtmlGzipped e sourceFile resultFile)) = []"
  using assms
  by (auto simp: writeHtmlGzipped_def Let_def split: option.splits sum.splits)

section \<open>The example project evaluated\<close>

lemma example_reads:
  "readFileSync example_env ''wled00/data/favicon.ico'' = Inr [0x00]"
  "readFileSync example_env ''wled00/data/style.css'' = Inr example_css"
  "readFileSync example_env ''wled00/data/gone.htm'' =
     Inl (Error ''ENOENT: no such file or directory, open the requested asset of the web interface'')"
  by (simp_all add: example_env_def example_files_def)

lemma example_css_text:
  "adoptVersionAndRepo (example_env\<lparr>version := None\<rparr>) (toString_ascii example_css) =
     ''b{content:##VERSION##}''"
  "adoptVersionAndRepo example_env (toString_ascii example_css) = ''b{content:1.2.3}''"
  "split ''##VERSION##'' ''b{content:##VERSION##}'' = [''b{content:'', ''}'']"
  by code_simp+

lemma example_hexdump:
  "hexdump [0x00] = ''  0x00''"
  "hexdump [0x1f, 0x8b] = ''  0x1f, 0x8b''"
  "num_str 6 = ''6''"
  "num_str 2 = ''2''"
  "num_str (Suc (Suc (Suc (Suc (Suc (Suc 0)))))) = ''6''"
  "num_str (Suc (Suc 0)) = ''2''"
  by code_simp+

section \<open>The claims\<close>

text \<open>
  C1. The claim: for a spec with method \<open>binary\<close>, the number assigned to
  \<open><name>_length\<close> is the byte length of the file that was read. The code assigns the
  length of the hexadecimal text instead: for a file of \<open>n > 0\<close> bytes the chunk carries
  \<open>6 * n + 2 * ((n - 1) div 16)\<close> (six characters per byte and two more for every
  line break), which is always greater than \<open>n\<close>.
\<close>

theorem specToChunk_binary_length:
  assumes "s_method s = ''binary''"
    and "readFileSync e (srcDir @ ''/'' @ s_file s) = Inr buf"
    and "s_mangle s = None"
    and "buf \<noteq> []"
  shows "specToChunk e srcDir s =
           ([], Inr (Some
              (''\<newline>// Autogenerated from '' @ srcDir @ ''/'' @ s_file s @ '', do not edit!!\<newline>'' @
               ''const uint16_t '' @ s_name s @ ''_length = '' @
               num_str (6 * length buf + 2 * ((length buf - 1) div 16)) @ '';\<newline>'' @
               ''const uint8_t '' @ s_name s @ ''[] PROGMEM = {\<newline>'' @
               hexdump buf @ ''\<newline>};\<newline>\<newline>''))) \<and>
         length buf < 6 * length buf + 2 * ((length buf - 1) div 16)"
proof -
  have "length buf < 6 * length buf + 2 * ((length buf - 1) div 16)"
    using assms(4) by (cases buf) simp_all
  moreover have "specToChunk e srcDir s = ([], Inr (Some (binaryChunk srcDir s (hexdump buf))))"
    using assms(1-3) by (simp add: specToChunk_def mangled_def)
  ultimately show ?thesis
    by (simp add: binaryChunk_def length_hexdump_nonempty [OF assms(4)])
qed

theorem specToChunk_binary_length_witness:
  "specToChunk example_env ''wled00/data'' (example_spec ''favicon.ico'' ''favicon'' ''binary'' None) =
     ([], Inr (Some
        (''\<newline>// Autogenerated from wled00/data/favicon.ico, do not edit!!\<newline>'' @
         ''const uint16_t favicon_length = 6;\<newline>'' @
         ''const uint8_t favicon[] PROGMEM = {\<newline>'' @
         ''  0x00'' @ ''\<newline>};\<newline>\<newline>'')))"
proof -
  have h: "hexdump [0x00] = ''  0x00''" by code_simp
  have n: "num_str 6 = ''6''" by code_simp
  show ?thesis
    using specToChunk_binary_length
      [of "example_spec ''favicon.ico'' ''favicon'' ''binary'' None" example_env
          "''wled00/data''" "[0x00]"]
    by (simp add: example_env_def example_files_def example_spec_def h n)
qed

text \<open>
  C2. The claim: for a plaintext spec without filter and without mangle, the text between
  prefix and suffix is the file's bytes with only the substitution of
  \<open>adoptVersionAndRepo\<close> applied, for arbitrary file contents. The file is decoded with
  \<open>toString("ascii")\<close>, which clears the top bit of every byte, so a byte from \<open>0x80\<close> on
  does not reach the chunk unchanged. As amended: the text between prefix and suffix is
  \<open>adoptVersionAndRepo\<close> of the file decoded as ASCII (every byte with its top bit
  cleared), and no warning is emitted; for a file whose bytes are all below \<open>0x80\<close> the
  decoded text is the file's bytes themselves.
\<close>

theorem specToChunk_plaintext_unfiltered:
  assumes "s_method s = ''plaintext''"
    and "s_filter s = None"
    and "s_mangle s = None"
    and "readFileSync e (srcDir @ ''/'' @ s_file s) = Inr buf"
  shows "specToChunk e srcDir s =
           ([], Inr (Some
              (''\<newline>// Autogenerated from '' @ srcDir @ ''/'' @ s_file s @ '', do not edit!!\<newline>'' @
               ''const char '' @ s_name s @ ''[] PROGMEM = R'' @ dquote @
               or_empty (s_prepend s) @
               adoptVersionAndRepo e (toString_ascii buf) @
               or_empty (s_append s) @
               dquote @ '';\<newline>\<newline>''))) \<and>
         ((\<forall>b\<in>set buf. b < 0x80) \<longrightarrow> toString_ascii buf = bytes_as_text buf)"
  using assms
  by (simp add: specToChunk_def filter_str_def mangled_def plaintextChunk_def toString_ascii_7bit)

theorem specToChunk_plaintext_unfiltered_witness:
  "specToChunk example_env ''wled00/data'' (example_spec ''msg.htm'' ''PAGE_msg'' ''plaintext'' None) =
     ([], Inr (Some
        (''\<newline>// Autogenerated from wled00/data/msg.htm, do not edit!!\<newline>'' @
         ''const char PAGE_msg[] PROGMEM = R'' @ dquote @ ''=====(WLED 1.2.3)====='' @ dquote @
         '';\<newline>\<newline>''))) \<and>
   toString_ascii (map of_char ''WLED ##VERSION##'') = bytes_as_text (map of_char ''WLED ##VERSION##'')"
proof -
  let ?s = "example_spec ''msg.htm'' ''PAGE_msg'' ''plaintext'' None"
  let ?buf = "map of_char ''WLED ##VERSION##'' :: buffer"
  have a: "s_method ?s = ''plaintext''" "s_filter ?s = None" "s_mangle ?s = None"
    by (simp_all add: example_spec_def)
  have r: "readFileSync example_env (''wled00/data'' @ ''/'' @ s_file ?s) = Inr ?buf"
    by (simp add: example_env_def example_files_def example_spec_def)
  have small: "\<forall>b\<in>set ?buf. b < 0x80" by simp
  have c: "adoptVersionAndRepo example_env (toString_ascii ?buf) = ''WLED 1.2.3''"
    by code_simp
  have f: "s_file ?s = ''msg.htm''" "s_name ?s = ''PAGE_msg''"
    "or_empty (s_prepend ?s) = ''=====(''" "or_empty (s_append ?s) = '')=====''"
    by (simp_all add: example_spec_def or_empty_def)
  note run = specToChunk_plaintext_unfiltered [OF a r]
  from run [THEN conjunct1]
  have "specToChunk example_env ''wled00/data'' ?s =
     ([], Inr (Some
        (''\<newline>// Autogenerated from wled00/data/msg.htm, do not edit!!\<newline>'' @
         ''const char PAGE_msg[] PROGMEM = R'' @ dquote @ ''=====(WLED 1.2.3)====='' @ dquote @
         '';\<newline>\<newline>'')))"
    by (simp only: c f append.simps append_assoc)
  moreover from run [THEN conjunct2] small
  have "toString_ascii ?buf = bytes_as_text ?buf" by blast
  ultimately show ?thesis by blast
qed

theorem plaintext_high_bit_counterexample:
  "specToChunk example_env ''wled00/data''
     (example_spec ''latin.htm'' ''PAGE_latin'' ''plaintext'' None) =
     ([], Inr (Some (plaintextChunk ''wled00/data''
        (example_spec ''latin.htm'' ''PAGE_latin'' ''plaintext'' None) [CHR 0x00]))) \<and>
   adoptVersionAndRepo example_env (bytes_as_text [0x80]) = [CHR 0x80] \<and>
   plaintextChunk ''wled00/data''
        (example_spec ''latin.htm'' ''PAGE_latin'' ''plaintext'' None) [CHR 0x00] \<noteq>
   plaintextChunk ''wled00/data''
        (example_spec ''latin.htm'' ''PAGE_latin'' ''plaintext'' None) [CHR 0x80]"
proof -
  have a: "adoptVersionAndRepo example_env [CHR 0x00] = [CHR 0x00]" by code_simp
  have b: "adoptVersionAndRepo example_env (bytes_as_text [0x80]) = [CHR 0x80]" by code_simp
  have t: "toString_ascii [0x80] = [CHR 0x00]" by code_simp
  have "specToChunk example_env ''wled00/data''
     (example_spec ''latin.htm'' ''PAGE_latin'' ''plaintext'' None) =
     ([], Inr (Some (plaintextChunk ''wled00/data''
        (example_spec ''latin.htm'' ''PAGE_latin'' ''plaintext'' None) [CHR 0x00])))"
    by (simp add: specToChunk_def filter_str_def mangled_def example_spec_def example_env_def
        example_files_def t a [unfolded example_env_def])
  moreover have "plaintextChunk ''wled00/data''
        (example_spec ''latin.htm'' ''PAGE_latin'' ''plaintext'' None) [CHR 0x00] \<noteq>
   plaintextChunk ''wled00/data''
        (example_spec ''latin.htm'' ''PAGE_latin'' ''plaintext'' None) [CHR 0x80]"
    by (simp add: plaintextChunk_def)
  ultimately show ?thesis using b by blast
qed

text \<open>
  C5. When \<open>fs.readFileSync\<close> fails for one spec of the sequence (a spec whose method
  makes \<open>specToChunk\<close> read its file), the run goes on: that spec adds nothing to the
  buffer, a warning with the asset's name and the first 60 characters of the error's
  message is emitted between the events of the specs before and after it, and the one write
  at the end carries the header comment followed by what \<open>specToChunk\<close> returns for
  every other spec, each chunk as it was rendered (and \<open>undefined\<close> for an unknown
  method), exactly as the run without the failing spec writes it.
\<close>

theorem writeChunks_skips_unreadable:
  assumes "s_method s = ''plaintext'' \<or> s_method s = ''binary''"
    and "readFileSync e (srcDir @ ''/'' @ s_file s) = Inl err"
  shows
    "(let others = (\<lambda>s'. case snd (specToChunk e srcDir s') of
                           Inl err' \<Rightarrow> []
                         | Inr None \<Rightarrow> ''undefined''
                         | Inr (Some chunk) \<Rightarrow> chunk);
          content =
            (''/*\<newline> * More web UI HTML source arrays.\<newline>'' @
             '' * This file is auto generated, please don't make any changes manually.\<newline>'' @
             '' * Instead, see https://github.com/Aircoookie/WLED/wiki/Add-own-functionality#web-ui\<newline>'' @
             '' * to find out how to easily modify the web UI source!\<newline>'' @
             '' */ \<newline>'') @
            concat (map others xs) @ concat (map others ys)
      in writeChunks e srcDir (xs @ s # ys) resultFile =
           concat (map (emitted e srcDir) xs) @
           [Info (''Reading '' @ srcDir @ ''/'' @ s_file s @ '' as '' @ s_name s),
            Warn [''Failed '' @ s_name s @ '' from '' @ srcDir @ ''/'' @ s_file s,
                  take 60 (message err)]] @
           concat (map (emitted e srcDir) ys) @
           [Info (''Writing '' @ num_str (length content) @ '' characters into '' @ resultFile),
            WriteFile resultFile content] \<and>
         filter is_write (writeChunks e srcDir (xs @ s # ys) resultFile) =
           [WriteFile resultFile content] \<and>
         filter is_write (writeChunks e srcDir (xs @ s # ys) resultFile) =
           filter is_write (writeChunks e srcDir (xs @ ys) resultFile) \<and>
         length (take 60 (message err)) \<le> 60)"
proof -
  have a: "appended e srcDir = (\<lambda>s'. case snd (specToChunk e srcDir s') of
                           Inl err' \<Rightarrow> []
                         | Inr None \<Rightarrow> ''undefined''
                         | Inr (Some chunk) \<Rightarrow> chunk)"
    by (rule ext) (rule appended_cases)
  have main: "writeChunks e srcDir (xs @ s # ys) resultFile =
           concat (map (emitted e srcDir) xs) @
           [Info (''Reading '' @ srcDir @ ''/'' @ s_file s @ '' as '' @ s_name s),
            Warn [''Failed '' @ s_name s @ '' from '' @ srcDir @ ''/'' @ s_file s,
                  take 60 (message err)]] @
           concat (map (emitted e srcDir) ys) @
           [Info (''Writing '' @
                  num_str (length (chunksHeader @ concat (map (appended e srcDir) xs) @
                                   concat (map (appended e srcDir) ys))) @
                  '' characters into '' @ resultFile),
            WriteFile resultFile (chunksHeader @ concat (map (appended e srcDir) xs) @
                                   concat (map (appended e srcDir) ys))] \<and>
         filter is_write (writeChunks e srcDir (xs @ s # ys) resultFile) =
           [WriteFile resultFile (chunksHeader @ concat (map (appended e srcDir) xs) @
                                   concat (map (appended e srcDir) ys))] \<and>
         filter is_write (writeChunks e srcDir (xs @ s # ys) resultFile) =
           filter is_write (writeChunks e srcDir (xs @ ys) resultFile) \<and>
         length (take 60 (message err)) \<le> 60"
    using appended_read_fails [OF assms]
    by (simp add: writeChunks_eq emitted_all_no_write)
  show ?thesis
    unfolding Let_def a [symmetric] chunksHeader_text [symmetric] by (rule main)
qed

theorem writeChunks_skips_unreadable_witness:
  "Warn [''Failed PAGE_gone from wled00/data/gone.htm'',
         ''ENOENT: no such file or directory, open the requested asset '']
     \<in> set (writeChunks example_env ''wled00/data''
                [example_spec ''favicon.ico'' ''favicon'' ''binary'' None,
                 example_spec ''gone.htm'' ''PAGE_gone'' ''plaintext'' None,
                 example_spec ''style.css'' ''PAGE_settingsCss'' ''plaintext'' (Some ''css-minify'')]
                ''wled00/html_other.h'') \<and>
   filter is_write
     (writeChunks example_env ''wled00/data''
        [example_spec ''favicon.ico'' ''favicon'' ''binary'' None,
         example_spec ''gone.htm'' ''PAGE_gone'' ''plaintext'' None,
         example_spec ''style.css'' ''PAGE_settingsCss'' ''plaintext'' (Some ''css-minify'')]
        ''wled00/html_other.h'') =
   [WriteFile ''wled00/html_other.h''
      (''/*\<newline> * More web UI HTML source arrays.\<newline>'' @
       '' * This file is auto generated, please don't make any changes manually.\<newline>'' @
       '' * Instead, see https://github.com/Aircoookie/WLED/wiki/Add-own-functionality#web-ui\<newline>'' @
       '' * to find out how to easily modify the web UI source!\<newline>'' @
       '' */ \<newline>'' @
       ''\<newline>// Autogenerated from wled00/data/favicon.ico, do not edit!!\<newline>'' @
       ''const uint16_t favicon_length = 6;\<newline>'' @
       ''const uint8_t favicon[] PROGMEM = {\<newline>'' @
       ''  0x00\<newline>};\<newline>\<newline>'' @
       ''\<newline>// Autogenerated from wled00/data/style.css, do not edit!!\<newline>'' @
       ''const char PAGE_settingsCss[] PROGMEM = R'' @ [CHR 0x22] @
       ''=====(b{content:1.2.3})====='' @ [CHR 0x22] @ '';\<newline>\<newline>'')]"
proof -
  let ?s = "example_spec ''gone.htm'' ''PAGE_gone'' ''plaintext'' None"
  let ?xs = "[example_spec ''favicon.ico'' ''favicon'' ''binary'' None]"
  let ?ys = "[example_spec ''style.css'' ''PAGE_settingsCss'' ''plaintext'' (Some ''css-minify'')]"
  have m: "s_method ?s = ''plaintext'' \<or> s_method ?s = ''binary''"
    by (simp add: example_spec_def)
  have r: "readFileSync example_env (''wled00/data'' @ ''/'' @ s_file ?s) =
             Inl (Error ''ENOENT: no such file or directory, open the requested asset of the web interface'')"
    by (simp add: example_reads example_spec_def)
  note run = writeChunks_skips_unreadable
    [OF m r, of ?xs ?ys "''wled00/html_other.h''", unfolded Let_def]
  have "Warn [''Failed '' @ s_name ?s @ '' from '' @ ''wled00/data'' @ ''/'' @ s_file ?s,
              take 60 (message (Error ''ENOENT: no such file or directory, open the requested asset of the web interface''))]
          \<in> set (writeChunks example_env ''wled00/data'' (?xs @ ?s # ?ys) ''wled00/html_other.h'')"
    by (subst run [THEN conjunct1]) simp
  then have w: "Warn [''Failed PAGE_gone from wled00/data/gone.htm'',
         ''ENOENT: no such file or directory, open the requested asset '']
     \<in> set (writeChunks example_env ''wled00/data''
                [example_spec ''favicon.ico'' ''favicon'' ''binary'' None,
                 example_spec ''gone.htm'' ''PAGE_gone'' ''plaintext'' None,
                 example_spec ''style.css'' ''PAGE_settingsCss'' ''plaintext'' (Some ''css-minify'')]
                ''wled00/html_other.h'')"
    by (simp add: example_spec_def)
  have c1: "snd (specToChunk example_env ''wled00/data''
                (example_spec ''favicon.ico'' ''favicon'' ''binary'' None)) =
            Inr (Some (''\<newline>// Autogenerated from wled00/data/favicon.ico, do not edit!!\<newline>'' @
       ''const uint16_t favicon_length = 6;\<newline>'' @
       ''const uint8_t favicon[] PROGMEM = {\<newline>'' @
       ''  0x00\<newline>};\<newline>\<newline>''))"
    by (simp add: specToChunk_def example_spec_def example_reads example_hexdump mangled_def
        binaryChunk_def)
  have c2: "snd (specToChunk example_env ''wled00/data''
                (example_spec ''style.css'' ''PAGE_settingsCss'' ''plaintext'' (Some ''css-minify''))) =
            Inr (Some (''\<newline>// Autogenerated from wled00/data/style.css, do not edit!!\<newline>'' @
       ''const char PAGE_settingsCss[] PROGMEM = R'' @ [CHR 0x22] @
       ''=====(b{content:1.2.3})====='' @ [CHR 0x22] @ '';\<newline>\<newline>''))"
    by (simp add: specToChunk_def filter_str_def example_spec_def example_reads example_css_text
        mangled_def plaintextChunk_def or_empty_def dquote_def example_env_def [THEN arg_cong, of cleanCSS])
  from run [THEN conjunct2, THEN conjunct1]
  have "filter is_write
     (writeChunks example_env ''wled00/data''
        [example_spec ''favicon.ico'' ''favicon'' ''binary'' None,
         example_spec ''gone.htm'' ''PAGE_gone'' ''plaintext'' None,
         example_spec ''style.css'' ''PAGE_settingsCss'' ''plaintext'' (Some ''css-minify'')]
        ''wled00/html_other.h'') =
   [WriteFile ''wled00/html_other.h''
      (''/*\<newline> * More web UI HTML source arrays.\<newline>'' @
       '' * This file is auto generated, please don't make any changes manually.\<newline>'' @
       '' * Instead, see https://github.com/Aircoookie/WLED/wiki/Add-own-functionality#web-ui\<newline>'' @
       '' * to find out how to easily modify the web UI source!\<newline>'' @
       '' */ \<newline>'' @
       ''\<newline>// Autogenerated from wled00/data/favicon.ico, do not edit!!\<newline>'' @
       ''const uint16_t favicon_length = 6;\<newline>'' @
       ''const uint8_t favicon[] PROGMEM = {\<newline>'' @
       ''  0x00\<newline>};\<newline>\<newline>'' @
       ''\<newline>// Autogenerated from wled00/data/style.css, do not edit!!\<newline>'' @
       ''const char PAGE_settingsCss[] PROGMEM = R'' @ [CHR 0x22] @
       ''=====(b{content:1.2.3})====='' @ [CHR 0x22] @ '';\<newline>\<newline>'')]"
    by (simp add: c1 c2)
  with w show ?thesis by (rule conjI)
qed



text \<open>
  C7. For every sequence of specs and every destination, the only write of
  \<open>writeChunks\<close> is the last event of the run, it goes to the destination, and its content
  is the header comment followed, in the order of the specs, by one text per spec chosen by
  the spec's method: for \<open>plaintext\<close> the string literal around the file's text after
  substitution and filter, for \<open>binary\<close> the length constant and the array of the
  hexadecimal rendering, each passed through the spec's mangle if it has one and dropped if
  reading or filtering throws, and \<open>undefined\<close> for any other method.
\<close>

theorem writeChunks_header_then_chunks:
  "filter is_write (writeChunks e srcDir specs resultFile) =
     [WriteFile resultFile
        (''/*\<newline> * More web UI HTML source arrays.\<newline>'' @
         '' * This file is auto generated, please don't make any changes manually.\<newline>'' @
         '' * Instead, see https://github.com/Aircoookie/WLED/wiki/Add-own-functionality#web-ui\<newline>'' @
         '' * to find out how to easily modify the web UI source!\<newline>'' @
         '' */ \<newline>'' @
         concat (map (\<lambda>s.
           if s_method s = ''plaintext'' then
             (case readFileSync e (srcDir @ ''/'' @ s_file s) of
                Inl err \<Rightarrow> []
              | Inr buf \<Rightarrow>
                  (case (case s_filter s of
                           None \<Rightarrow> Inr (adoptVersionAndRepo e (toString_ascii buf))
                         | Some t \<Rightarrow>
                             if t = ''css-minify''
                             then cleanCSS e (adoptVersionAndRepo e (toString_ascii buf))
                             else if t = ''html-minify''
                             then minifyHTML e (adoptVersionAndRepo e (toString_ascii buf))
                             else Inr (adoptVersionAndRepo e (toString_ascii buf))) of
                     Inl err \<Rightarrow> []
                   | Inr content \<Rightarrow>
                       (case s_mangle s of None \<Rightarrow> (\<lambda>chunk. chunk) | Some m \<Rightarrow> m)
                         (''\<newline>// Autogenerated from '' @ srcDir @ ''/'' @ s_file s @
                          '', do not edit!!\<newline>'' @
                          ''const char '' @ s_name s @ ''[] PROGMEM = R'' @ [CHR 0x22] @
                          (case s_prepend s of None \<Rightarrow> [] | Some p \<Rightarrow> p) @ content @
                          (case s_append s of None \<Rightarrow> [] | Some a \<Rightarrow> a) @
                          [CHR 0x22] @ '';\<newline>\<newline>'')))
           else if s_method s = ''binary'' then
             (case readFileSync e (srcDir @ ''/'' @ s_file s) of
                Inl err \<Rightarrow> []
              | Inr buf \<Rightarrow>
                  (case s_mangle s of None \<Rightarrow> (\<lambda>chunk. chunk) | Some m \<Rightarrow> m)
                    (''\<newline>// Autogenerated from '' @ srcDir @ ''/'' @ s_file s @
                     '', do not edit!!\<newline>'' @
                     ''const uint16_t '' @ s_name s @ ''_length = '' @
                     num_str (length (hexdump buf)) @ '';\<newline>'' @
                     ''const uint8_t '' @ s_name s @ ''[] PROGMEM = {\<newline>'' @
                     hexdump buf @ ''\<newline>};\<newline>\<newline>''))
           else ''undefined'') specs))] \<and>
   is_write (last (writeChunks e srcDir specs resultFile))"
proof -
  have "is_write (last (writeChunks e srcDir specs resultFile))"
    by (simp add: writeChunks_eq)
  moreover have "filter is_write (writeChunks e srcDir specs resultFile) =
     [WriteFile resultFile (chunksHeader @ concat (map (\<lambda>s. appended e srcDir s) specs))]"
    by (simp add: writeChunks_writes)
  ultimately show ?thesis
    by (simp only: appended_by_method chunksHeader_text append_assoc simp_thms)
qed

theorem writeChunks_header_then_chunks_witness:
  "filter is_write
     (writeChunks example_env ''wled00/data''
        [example_spec ''favicon.ico'' ''favicon'' ''binary'' None,
         example_spec ''gone.htm'' ''PAGE_gone'' ''plaintext'' None,
         example_spec ''style.css'' ''PAGE_settingsCss'' ''plaintext'' (Some ''css-minify''),
         example_spec ''favicon.ico'' ''favicon_gz'' ''gzip'' None]
        ''wled00/html_other.h'') =
   [WriteFile ''wled00/html_other.h''
      (''/*\<newline> * More web UI HTML source arrays.\<newline>'' @
       '' * This file is auto generated, please don't make any changes manually.\<newline>'' @
       '' * Instead, see https://github.com/Aircoookie/WLED/wiki/Add-own-functionality#web-ui\<newline>'' @
       '' * to find out how to easily modify the web UI source!\<newline>'' @
       '' */ \<newline>'' @
       ''\<newline>// Autogenerated from wled00/data/favicon.ico, do not edit!!\<newline>'' @
       ''const uint16_t favicon_length = 6;\<newline>'' @
       ''const uint8_t favicon[] PROGMEM = {\<newline>'' @
       ''  0x00\<newline>};\<newline>\<newline>'' @
       ''\<newline>// Autogenerated from wled00/data/style.css, do not edit!!\<newline>'' @
       ''const char PAGE_settingsCss[] PROGMEM = R'' @ [CHR 0x22] @
       ''=====(b{content:1.2.3})====='' @ [CHR 0x22] @ '';\<newline>\<newline>'' @
       ''undefined'')]"
proof -
  have c: "cleanCSS example_env = Inr" by (simp add: example_env_def)
  from writeChunks_header_then_chunks
    [of example_env "''wled00/data''"
        "[example_spec ''favicon.ico'' ''favicon'' ''binary'' None,
          example_spec ''gone.htm'' ''PAGE_gone'' ''plaintext'' None,
          example_spec ''style.css'' ''PAGE_settingsCss'' ''plaintext'' (Some ''css-minify''),
          example_spec ''favicon.ico'' ''favicon_gz'' ''gzip'' None]"
        "''wled00/html_other.h''", THEN conjunct1]
  show ?thesis
    by (simp add: example_spec_def example_reads example_css_text example_hexdump c)
qed

text \<open>
  C8. The claim: for every document and every version string, every occurrence of
  \<open>##VERSION##\<close> is replaced by the version in the output chunk and none is left. With
  the empty version string \<open>if (version)\<close> is false and nothing is replaced. As amended,
  for every document and every non-empty version string: the document (decoded, and after
  the substitution of the repository URLs that runs first) is cut at the occurrences of
  \<open>##VERSION##\<close> found from the left and the pieces, none of which contains an occurrence,
  are joined again with the version string in place of each occurrence; the chunk of a
  plaintext spec is rendered from exactly this text, handed to the spec's minifier first
  when it names one, and the page of \<open>writeHtmlGzipped\<close> is the rendering of what the
  compressor makes of it.
\<close>

theorem version_placeholder_replaced:
  assumes "version e = Some v" and "v \<noteq> []"
  shows
    "(s_method s = ''plaintext'' \<and> readFileSync e (srcDir @ ''/'' @ s_file s) = Inr buf \<longrightarrow>
       (let doc = adoptVersionAndRepo (e\<lparr>version := None\<rparr>) (toString_ascii buf);
            pieces = split ''##VERSION##'' doc;
            replaced = join v pieces;
            render = (\<lambda>content.
              (case s_mangle s of None \<Rightarrow> (\<lambda>chunk. chunk) | Some m \<Rightarrow> m)
                (''\<newline>// Autogenerated from '' @ srcDir @ ''/'' @ s_file s @
                 '', do not edit!!\<newline>'' @
                 ''const char '' @ s_name s @ ''[] PROGMEM = R'' @ [CHR 0x22] @
                 (case s_prepend s of None \<Rightarrow> [] | Some p \<Rightarrow> p) @ content @
                 (case s_append s of None \<Rightarrow> [] | Some a \<Rightarrow> a) @
                 [CHR 0x22] @ '';\<newline>\<newline>''))
        in join ''##VERSION##'' pieces = doc \<and>
           (\<forall>p\<in>set pieces. \<not> sublist ''##VERSION##'' p) \<and>
           snd (specToChunk e srcDir s) =
             (case s_filter s of
                None \<Rightarrow> Inr (Some (render replaced))
              | Some t \<Rightarrow>
                  if t = ''css-minify''
                  then (case cleanCSS e replaced of
                          Inl err \<Rightarrow> Inl err | Inr minified \<Rightarrow> Inr (Some (render minified)))
                  else if t = ''html-minify''
                  then (case minifyHTML e replaced of
                          Inl err \<Rightarrow> Inl err | Inr minified \<Rightarrow> Inr (Some (render minified)))
                  else Inr (Some (render replaced))))) \<and>
     (inliner e sourceFile = (None, Some html) \<longrightarrow>
       (let doc = adoptVersionAndRepo (e\<lparr>version := None\<rparr>) html;
            pieces = split ''##VERSION##'' doc;
            replaced = join v pieces
        in join ''##VERSION##'' pieces = doc \<and>
           (\<forall>p\<in>set pieces. \<not> sublist ''##VERSION##'' p) \<and>
           filter is_write (fst (writeHtmlGzipped e sourceFile resultFile)) =
             (case gzip e replaced of
                Inl err \<Rightarrow> []
              | Inr result \<Rightarrow>
                  [WriteFile resultFile
                     (''/*\<newline> * Binary array for the Web UI.\<newline>'' @
                      '' * gzip is used for smaller size and improved speeds.\<newline>'' @
                      '' * \<newline>'' @
                      '' * Please see https://github.com/Aircoookie/WLED/wiki/Add-own-functionality#web-ui\<newline>'' @
                      '' * to find out how to easily modify the web UI source!\<newline>'' @
                      '' */\<newline> \<newline>'' @
                      ''// Autogenerated from '' @ sourceFile @ '', do not edit!!\<newline>'' @
                      ''const uint16_t PAGE_index_L = '' @ num_str (length result) @ '';\<newline>'' @
                      ''const uint8_t PAGE_index[] PROGMEM = {\<newline>'' @
                      hexdump result @ ''\<newline>};\<newline>'')])))"
proof -
  have ne: "''##VERSION##'' \<noteq> []" by simp
  have rejoin: "join ''##VERSION##'' (split ''##VERSION##'' str) = str" for str
    by (rule strReplace_pieces(1) [OF ne])
  have clean: "\<forall>p\<in>set (split ''##VERSION##'' str). \<not> sublist ''##VERSION##'' p" for str
    by (rule strReplace_pieces(3) [OF ne])
  note out = adoptVersionAndRepo_version [OF assms]
  have chunk: "snd (specToChunk e srcDir s) =
             (case s_filter s of
                None \<Rightarrow> Inr (Some (mangled s (plaintextChunk srcDir s (adoptVersionAndRepo e (toString_ascii buf)))))
              | Some t \<Rightarrow>
                  if t = ''css-minify''
                  then (case cleanCSS e (adoptVersionAndRepo e (toString_ascii buf)) of
                          Inl err \<Rightarrow> Inl err
                        | Inr minified \<Rightarrow> Inr (Some (mangled s (plaintextChunk srcDir s minified))))
                  else if t = ''html-minify''
                  then (case minifyHTML e (adoptVersionAndRepo e (toString_ascii buf)) of
                          Inl err \<Rightarrow> Inl err
                        | Inr minified \<Rightarrow> Inr (Some (mangled s (plaintextChunk srcDir s minified))))
                  else Inr (Some (mangled s (plaintextChunk srcDir s (adoptVersionAndRepo e (toString_ascii buf))))))"
    if "s_method s = ''plaintext''" "readFileSync e (srcDir @ ''/'' @ s_file s) = Inr buf"
    by (simp add: specToChunk_plaintext_result [OF that] filter_str_result split: option.splits)
  have page: "filter is_write (fst (writeHtmlGzipped e sourceFile resultFile)) =
             (case gzip e (adoptVersionAndRepo e html) of
                Inl err \<Rightarrow> []
              | Inr result \<Rightarrow>
                  [WriteFile resultFile (htmlSrc sourceFile (length result) (hexdump result))])"
    if "inliner e sourceFile = (None, Some html)"
    using that by (simp add: writeHtmlGzipped_def Let_def split: sum.splits)
  show ?thesis
    unfolding Let_def
  proof (intro conjI impI)
    assume h: "s_method s = ''plaintext'' \<and> readFileSync e (srcDir @ ''/'' @ s_file s) = Inr buf"
    show "snd (specToChunk e srcDir s) =
      (case s_filter s of
       None \<Rightarrow>
         Inr (Some
               ((case s_mangle s of None \<Rightarrow> \<lambda>chunk. chunk | Some m \<Rightarrow> m)
                 (''\<newline>// Autogenerated from '' @ srcDir @ ''/'' @ s_file s @
                  '', do not edit!!\<newline>'' @
                  ''const char '' @ s_name s @ ''[] PROGMEM = R'' @ [CHR 0x22] @
                  (case s_prepend s of None \<Rightarrow> [] | Some p \<Rightarrow> p) @
                  join v (split ''##VERSION##''
                    (adoptVersionAndRepo (e\<lparr>version := None\<rparr>) (toString_ascii buf))) @
                  (case s_append s of None \<Rightarrow> [] | Some a \<Rightarrow> a) @
                  [CHR 0x22] @ '';\<newline>\<newline>'')))
       | Some t \<Rightarrow>
           if t = ''css-minify''
           then case cleanCSS e (join v (split ''##VERSION##''
                    (adoptVersionAndRepo (e\<lparr>version := None\<rparr>) (toString_ascii buf)))) of
                Inl err \<Rightarrow> Inl err
                | Inr minified \<Rightarrow>
                    Inr (Some
                          ((case s_mangle s of None \<Rightarrow> \<lambda>chunk. chunk | Some m \<Rightarrow> m)
                            (''\<newline>// Autogenerated from '' @ srcDir @ ''/'' @ s_file s @
                             '', do not edit!!\<newline>'' @
                             ''const char '' @ s_name s @ ''[] PROGMEM = R'' @ [CHR 0x22] @
                             (case s_prepend s of None \<Rightarrow> [] | Some p \<Rightarrow> p) @
                             minified @
                             (case s_append s of None \<Rightarrow> [] | Some a \<Rightarrow> a) @
                             [CHR 0x22] @ '';\<newline>\<newline>'')))
           else if t = ''html-minify''
                then case minifyHTML e (join v (split ''##VERSION##''
                    (adoptVersionAndRepo (e\<lparr>version := None\<rparr>) (toString_ascii buf)))) of
                     Inl err \<Rightarrow> Inl err
                     | Inr minified \<Rightarrow>
                         Inr (Some
                               ((case s_mangle s of None \<Rightarrow> \<lambda>chunk. chunk | Some m \<Rightarrow> m)
                                 (''\<newline>// Autogenerated from '' @ srcDir @ ''/'' @ s_file s @
                                  '', do not edit!!\<newline>'' @
                                  ''const char '' @ s_name s @ ''[] PROGMEM = R'' @ [CHR 0x22] @
                                  (case s_prepend s of None \<Rightarrow> [] | Some p \<Rightarrow> p) @
                                  minified @
                                  (case s_append s of None \<Rightarrow> [] | Some a \<Rightarrow> a) @
                                  [CHR 0x22] @ '';\<newline>\<newline>'')))
                else Inr (Some
                           ((case s_mangle s of None \<Rightarrow> \<lambda>chunk. chunk | Some m \<Rightarrow> m)
                             (''\<newline>// Autogenerated from '' @ srcDir @ ''/'' @ s_file s @
                              '', do not edit!!\<newline>'' @
                              ''const char '' @ s_name s @ ''[] PROGMEM = R'' @ [CHR 0x22] @
                              (case s_prepend s of None \<Rightarrow> [] | Some p \<Rightarrow> p) @
                              join v (split ''##VERSION##''
                                (adoptVersionAndRepo (e\<lparr>version := None\<rparr>) (toString_ascii buf))) @
                              (case s_append s of None \<Rightarrow> [] | Some a \<Rightarrow> a) @
                              [CHR 0x22] @ '';\<newline>\<newline>''))))"
      using chunk [OF conjunct1 [OF h] conjunct2 [OF h]]
      by (simp add: out [symmetric] mangled_def plaintextChunk_def or_empty_def dquote_def
          split: option.splits sum.splits)
  next
    assume i: "inliner e sourceFile = (None, Some html)"
    show "filter is_write (fst (writeHtmlGzipped e sourceFile resultFile)) =
      (case gzip e (join v (split ''##VERSION##''
                (adoptVersionAndRepo (e\<lparr>version := None\<rparr>) html))) of
       Inl err \<Rightarrow> []
       | Inr result \<Rightarrow>
           [WriteFile resultFile
             (''/*\<newline> * Binary array for the Web UI.\<newline>'' @
              '' * gzip is used for smaller size and improved speeds.\<newline>'' @
              '' * \<newline>'' @
              '' * Please see https://github.com/Aircoookie/WLED/wiki/Add-own-functionality#web-ui\<newline>'' @
              '' * to find out how to easily modify the web UI source!\<newline>'' @
              '' */\<newline> \<newline>'' @
              ''// Autogenerated from '' @ sourceFile @ '', do not edit!!\<newline>'' @
              ''const uint16_t PAGE_index_L = '' @ num_str (length result) @ '';\<newline>'' @
              ''const uint8_t PAGE_index[] PROGMEM = {\<newline>'' @
              hexdump result @ ''\<newline>};\<newline>'')])"
      using page [OF i]
      by (simp add: out [symmetric] htmlSrc_def split: sum.splits)
  qed (rule rejoin clean)+
qed

theorem version_placeholder_replaced_witness:
  "snd (specToChunk example_env ''wled00/data''
         (example_spec ''style.css'' ''PAGE_settingsCss'' ''plaintext'' (Some ''css-minify''))) =
     Inr (Some
       (''\<newline>// Autogenerated from wled00/data/style.css, do not edit!!\<newline>'' @
        ''const char PAGE_settingsCss[] PROGMEM = R'' @ [CHR 0x22] @
        ''=====(b{content:1.2.3})====='' @ [CHR 0x22] @ '';\<newline>\<newline>'')) \<and>
   filter is_write
     (fst (writeHtmlGzipped example_env ''wled00/data/index.htm'' ''wled00/html_ui.h'')) =
     [WriteFile ''wled00/html_ui.h''
        (''/*\<newline> * Binary array for the Web UI.\<newline>'' @
         '' * gzip is used for smaller size and improved speeds.\<newline>'' @
         '' * \<newline>'' @
         '' * Please see https://github.com/Aircoookie/WLED/wiki/Add-own-functionality#web-ui\<newline>'' @
         '' * to find out how to easily modify the web UI source!\<newline>'' @
         '' */\<newline> \<newline>'' @
         ''// Autogenerated from wled00/data/index.htm, do not edit!!\<newline>'' @
         ''const uint16_t PAGE_index_L = 2;\<newline>'' @
         ''const uint8_t PAGE_index[] PROGMEM = {\<newline>'' @
         ''  0x1f, 0x8b\<newline>};\<newline>'')]"
proof -
  let ?s = "example_spec ''style.css'' ''PAGE_settingsCss'' ''plaintext'' (Some ''css-minify'')"
  have v: "version example_env = Some ''1.2.3''" "''1.2.3'' \<noteq> []"
    by (simp_all add: example_env_def)
  have m: "s_method ?s = ''plaintext'' \<and>
           readFileSync example_env (''wled00/data'' @ ''/'' @ s_file ?s) = Inr example_css"
    by (simp add: example_spec_def example_reads)
  have i: "inliner example_env ''wled00/data/index.htm'' = (None, Some ''<html>##VERSION##</html>'')"
    by (simp add: example_env_def)
  have c: "cleanCSS example_env = Inr" by (simp add: example_env_def)
  have g: "gzip example_env = (\<lambda>doc. Inr [0x1f, 0x8b])" by (simp add: example_env_def)
  note run = version_placeholder_replaced
    [OF v, of ?s "''wled00/data''" example_css "''wled00/data/index.htm''"
       "''<html>##VERSION##</html>''" "''wled00/html_ui.h''", unfolded Let_def]
  from run [THEN conjunct1, THEN mp, OF m, THEN conjunct2, THEN conjunct2]
  have "snd (specToChunk example_env ''wled00/data'' ?s) =
     Inr (Some
       (''\<newline>// Autogenerated from wled00/data/style.css, do not edit!!\<newline>'' @
        ''const char PAGE_settingsCss[] PROGMEM = R'' @ [CHR 0x22] @
        ''=====(b{content:1.2.3})====='' @ [CHR 0x22] @ '';\<newline>\<newline>''))"
    by (simp add: example_spec_def example_css_text c)
  moreover from run [THEN conjunct2, THEN mp, OF i, THEN conjunct2, THEN conjunct2]
  have "filter is_write
     (fst (writeHtmlGzipped example_env ''wled00/data/index.htm'' ''wled00/html_ui.h'')) =
     [WriteFile ''wled00/html_ui.h''
        (''/*\<newline> * Binary array for the Web UI.\<newline>'' @
         '' * gzip is used for smaller size and improved speeds.\<newline>'' @
         '' * \<newline>'' @
         '' * Please see https://github.com/Aircoookie/WLED/wiki/Add-own-functionality#web-ui\<newline>'' @
         '' * to find out how to easily modify the web UI source!\<newline>'' @
         '' */\<newline> \<newline>'' @
         ''// Autogenerated from wled00/data/index.htm, do not edit!!\<newline>'' @
         ''const uint16_t PAGE_index_L = 2;\<newline>'' @
         ''const uint8_t PAGE_index[] PROGMEM = {\<newline>'' @
         ''  0x1f, 0x8b\<newline>};\<newline>'')]"
    by (simp add: g example_hexdump)
  ultimately show ?thesis by (rule conjI)
qed

theorem empty_version_counterexample:
  "version (example_env\<lparr>version := Some ''''\<rparr>) = Some '''' \<and>
   adoptVersionAndRepo (example_env\<lparr>version := Some ''''\<rparr>) ''WLED ##VERSION##'' =
     ''WLED ##VERSION##'' \<and>
   sublist ''##VERSION##''
     (adoptVersionAndRepo (example_env\<lparr>version := Some ''''\<rparr>) ''WLED ##VERSION##'')"
proof -
  have a: "adoptVersionAndRepo (example_env\<lparr>version := Some ''''\<rparr>) ''WLED ##VERSION##'' =
     ''WLED ##VERSION##''"
    by code_simp
  have "sublist ''##VERSION##'' (''WLED '' @ ''##VERSION##'' @ [])"
    by (rule sublist_appendI)
  then have "sublist ''##VERSION##'' ''WLED ##VERSION##''" by simp
  with a show ?thesis by simp
qed

text \<open>
  C10. A spec whose method is neither \<open>plaintext\<close> nor \<open>binary\<close>: \<open>specToChunk\<close> warns
  \<open>Unknown method: <method>\<close> and returns \<open>undefined\<close>; the callback of \<open>writeChunks\<close>
  appends the nine characters \<open>undefined\<close> to the buffer, and they are in the file that is
  written, at the place of that spec.
\<close>

theorem unknown_method_appends_undefined:
  assumes "s_method s \<noteq> ''plaintext''" and "s_method s \<noteq> ''binary''"
  shows "specToChunk e srcDir s = ([Warn [''Unknown method: '' @ s_method s]], Inr None) \<and>
         writeChunks_each e srcDir (src, evs) s =
           (src @ ''undefined'',
            evs @ [Info (''Reading '' @ srcDir @ ''/'' @ s_file s @ '' as '' @ s_name s),
                   Warn [''Unknown method: '' @ s_method s]]) \<and>
         length ''undefined'' = 9 \<and>
         filter is_write (writeChunks e srcDir (xs @ s # ys) resultFile) =
           [WriteFile resultFile
              (chunksHeader @ concat (map (appended e srcDir) xs) @ ''undefined'' @
               concat (map (appended e srcDir) ys))]"
proof -
  have "specToChunk e srcDir s = ([Warn [''Unknown method: '' @ s_method s]], Inr None)"
    using assms by (simp add: specToChunk_def)
  then show ?thesis
    using appended_unknown_method [OF assms, of e srcDir]
    by (simp add: writeChunks_each_eq writeChunks_writes)
qed

theorem unknown_method_appends_undefined_witness:
  "filter is_write
     (writeChunks example_env ''wled00/data''
        [example_spec ''favicon.ico'' ''favicon'' ''gzip'' None] ''wled00/html_other.h'') =
   [WriteFile ''wled00/html_other.h'' (chunksHeader @ ''undefined'')]"
proof -
  let ?s = "example_spec ''favicon.ico'' ''favicon'' ''gzip'' None"
  have m: "s_method ?s \<noteq> ''plaintext''" "s_method ?s \<noteq> ''binary''"
    by (simp_all add: example_spec_def)
  from unknown_method_appends_undefined
    [OF m, of example_env "''wled00/data''" "[]" "[]" "[]" "[]" "''wled00/html_other.h''",
     THEN conjunct2, THEN conjunct2, THEN conjunct2]
  show ?thesis by simp
qed

end
